theory Spec2Isabelle
  imports Main "HOL-Library.AList"
begin

section \<open>Python values and dictionaries\<close>

text \<open>
  The server is dynamically typed Python. The values that reach a request body, a query
  string or a tool result are JSON shaped: \<open>None\<close>, booleans, integers, strings, lists and
  dictionaries. A dictionary keeps insertion order, so it is an association list;
  the assignment \<open>d[k] = v\<close> is \<open>AList.update k v d\<close>, which overwrites in place or appends.
\<close>

datatype pyval =
    PNone
  | PBool bool
  | PInt int
  | PStr string
  | PList "pyval list"
  | PDict "(string \<times> pyval) list"

type_synonym pydict = "(string \<times> pyval) list"

text \<open>Python truthiness, as tested by \<open>if x:\<close>.\<close>

fun truthy :: "pyval \<Rightarrow> bool" where
  "truthy PNone = False"
| "truthy (PBool b) = b"
| "truthy (PInt i) = (i \<noteq> 0)"
| "truthy (PStr s) = (s \<noteq> [])"
| "truthy (PList xs) = (xs \<noteq> [])"
| "truthy (PDict d) = (d \<noteq> [])"

text \<open>
  An argument whose declared default is \<open>None\<close> is an option: \<open>None\<close> is the unset argument.
  \<open>opt\<close> turns it into the Python value the function body sees.
\<close>

definition opt :: "('a \<Rightarrow> pyval) \<Rightarrow> 'a option \<Rightarrow> pyval" where
  "opt f a = (case a of None \<Rightarrow> PNone | Some x \<Rightarrow> f x)"

text \<open>
  An argument with another declared default (\<open>private: bool = False\<close>) is an option on the
  caller's side; the function body sees the default when the caller left it unset.
\<close>

definition arg_default :: "'a \<Rightarrow> 'a option \<Rightarrow> 'a" where
  "arg_default d a = (case a of None \<Rightarrow> d | Some x \<Rightarrow> x)"

text \<open>A \<open>list[int]\<close> argument as a Python list.\<close>

definition int_list :: "int list \<Rightarrow> pyval" where
  "int_list xs = PList (map PInt xs)"

text \<open>The two guarded assignments of the source: \<open>if x: d[k] = x\<close> and
  \<open>if x is not None: d[k] = x\<close>.\<close>

definition put_if_truthy :: "string \<Rightarrow> pyval \<Rightarrow> pydict \<Rightarrow> pydict" where
  "put_if_truthy k x d = (if truthy x then AList.update k x d else d)"

definition put_if_not_none :: "string \<Rightarrow> pyval \<Rightarrow> pydict \<Rightarrow> pydict" where
  "put_if_not_none k x d = (if x \<noteq> PNone then AList.update k x d else d)"

text \<open>\<open>str\<close> of an integer, as the f-strings of the source format it: decimal, with a
  leading minus sign for a negative number.\<close>

definition digit_char :: "nat \<Rightarrow> char" where
  "digit_char d = ''0123456789'' ! d"

fun str_nat :: "nat \<Rightarrow> string" where
  "str_nat n = (if n < 10 then [digit_char n] else str_nat (n div 10) @ [digit_char (n mod 10)])"

declare str_nat.simps [simp del]

definition str_int :: "int \<Rightarrow> string" where
  "str_int i = (if i < 0 then CHR ''-'' # str_nat (nat (- i)) else str_nat (nat i))"

section \<open>The transport client\<close>

text \<open>
  The configuration read at start-up and the remote service are the environment of every
  call. \<open>client_request\<close> stands for \<open>httpx.Client.request\<close>: given the request it either
  raises (connection failure, timeout) or returns a response. A response carries its
  status code, its raw body text and what \<open>response.json()\<close> gives on it: the decoded value,
  or the message of the decoding exception. A body that is the JSON text \<open>null\<close> decodes to
  Python \<open>None\<close>.
\<close>

datatype py_exception = ConnectError string | TimeoutException string

record http_request =
  http_method :: string
  url :: string
  headers :: "(string \<times> string) list"
  json :: "pydict option"
  params :: "pydict option"

record response =
  status_code :: int
  response_text :: string
  response_json :: "string + pyval"

datatype http_outcome = Raised py_exception | Responded response

record env =
  GITEA_MCP_API_URL :: string
  GITEA_ACCESS_TOKEN :: string
  client_request :: "http_request \<Rightarrow> http_outcome"

definition get_headers :: "env \<Rightarrow> (string \<times> string) list" where
  "get_headers e =
     [(''Authorization'', ''token '' @ GITEA_ACCESS_TOKEN e),
      (''Content-Type'', ''application/json''),
      (''Accept'', ''application/json'')]"

text \<open>\<open>response.raise_for_status()\<close> of httpx raises \<open>HTTPStatusError\<close> exactly when the
  status is outside 200..299.\<close>

definition is_success :: "int \<Rightarrow> bool" where
  "is_success s = (200 \<le> s \<and> s \<le> 299)"

text \<open>
  \<open>make_request\<close> threads the list of requests put on the wire so far, and returns either
  the exception that leaves the function or the value it returns. The call
  \<open>client.request(...)\<close> stands before the \<open>try\<close> block of the source, so what it raises is
  not caught; inside the block, \<open>HTTPStatusError\<close> gives the record with \<open>details\<close> and every
  other exception (the decoding failure of \<open>response.json()\<close>) the record with \<open>error\<close> only.
  Logging is not modelled.
\<close>

definition make_request ::
  "env \<Rightarrow> string \<Rightarrow> string \<Rightarrow> pydict option \<Rightarrow> pydict option \<Rightarrow> http_request list
     \<Rightarrow> (py_exception + pyval) \<times> http_request list" where
  "make_request e method endpoint data params_arg w =
     (let url_s = GITEA_MCP_API_URL e @ ''/api/v1/'' @ endpoint;
          hdrs = get_headers e;
          req = \<lparr>http_method = method, url = url_s, headers = hdrs,
                 json = data, params = params_arg\<rparr>;
          w' = w @ [req]
      in case client_request e req of
           Raised ex \<Rightarrow> (Inl ex, w')
         | Responded r \<Rightarrow>
             if \<not> is_success (status_code r) then
               (Inr (PDict [(''error'', PStr (''HTTP Error: '' @ str_int (status_code r))),
                            (''details'', PStr (response_text r))]), w')
             else if status_code r = 204 then (Inr PNone, w')
             else (case response_json r of
                     Inl msg \<Rightarrow> (Inr (PDict [(''error'', PStr msg)]), w')
                   | Inr v \<Rightarrow> (Inr v, w')))"

section \<open>The tools\<close>

text \<open>
  Each tool takes its arguments as the caller supplied them: a required argument as a
  value, an optional one as an option, with \<open>None\<close> for an argument left unset. Every tool
  builds its body or query dictionary and hands it to \<open>make_request\<close>.
\<close>

type_synonym tool_result =
  "http_request list \<Rightarrow> (py_exception + pyval) \<times> http_request list"

definition list_repositories :: "env \<Rightarrow> tool_result" where
  "list_repositories e = make_request e ''GET'' ''user/repos'' None None"

definition create_repository ::
  "env \<Rightarrow> string \<Rightarrow> string option \<Rightarrow> bool option \<Rightarrow> bool option \<Rightarrow> string option
     \<Rightarrow> string option \<Rightarrow> string option \<Rightarrow> string option \<Rightarrow> string option \<Rightarrow> tool_result" where
  "create_repository e name description private auto_init gitignores license readme
       issue_labels default_branch =
     (let data = [(''name'', PStr name),
                  (''private'', PBool (arg_default False private)),
                  (''auto_init'', PBool (arg_default False auto_init)),
                  (''default_branch'', PStr (arg_default ''main'' default_branch))];
          data = put_if_truthy ''description'' (opt PStr description) data;
          data = put_if_truthy ''gitignores'' (opt PStr gitignores) data;
          data = put_if_truthy ''license'' (opt PStr license) data;
          data = put_if_truthy ''readme'' (opt PStr readme) data;
          data = put_if_truthy ''issue_labels'' (opt PStr issue_labels) data
      in make_request e ''POST'' ''user/repos'' (Some data) None)"

definition create_org_repository ::
  "env \<Rightarrow> string \<Rightarrow> string \<Rightarrow> string option \<Rightarrow> bool option \<Rightarrow> bool option \<Rightarrow> string option
     \<Rightarrow> string option \<Rightarrow> string option \<Rightarrow> string option \<Rightarrow> string option \<Rightarrow> tool_result" where
  "create_org_repository e org name description private auto_init gitignores license readme
       issue_labels default_branch =
     (let data = [(''name'', PStr name),
                  (''private'', PBool (arg_default False private)),
                  (''auto_init'', PBool (arg_default False auto_init)),
                  (''default_branch'', PStr (arg_default ''main'' default_branch))];
          data = put_if_truthy ''description'' (opt PStr description) data;
          data = put_if_truthy ''gitignores'' (opt PStr gitignores) data;
          data = put_if_truthy ''license'' (opt PStr license) data;
          data = put_if_truthy ''readme'' (opt PStr readme) data;
          data = put_if_truthy ''issue_labels'' (opt PStr issue_labels) data
      in make_request e ''POST'' (''orgs/'' @ org @ ''/repos'') (Some data) None)"

definition get_repository :: "env \<Rightarrow> string \<Rightarrow> string \<Rightarrow> tool_result" where
  "get_repository e owner repo = make_request e ''GET'' (''repos/'' @ owner @ ''/'' @ repo) None None"

definition delete_repository :: "env \<Rightarrow> string \<Rightarrow> string \<Rightarrow> tool_result" where
  "delete_repository e owner repo =
     make_request e ''DELETE'' (''repos/'' @ owner @ ''/'' @ repo) None None"

definition list_org_repositories :: "env \<Rightarrow> string \<Rightarrow> tool_result" where
  "list_org_repositories e org = make_request e ''GET'' (''orgs/'' @ org @ ''/repos'') None None"

definition fork_repository :: "env \<Rightarrow> string \<Rightarrow> string \<Rightarrow> string option \<Rightarrow> tool_result" where
  "fork_repository e owner repo organization =
     (let data = [];
          data = put_if_truthy ''organization'' (opt PStr organization) data
      in make_request e ''POST'' (''repos/'' @ owner @ ''/'' @ repo @ ''/forks'') (Some data) None)"

definition search_repositories ::
  "env \<Rightarrow> string \<Rightarrow> bool option \<Rightarrow> bool option \<Rightarrow> int option \<Rightarrow> int option \<Rightarrow> int option
     \<Rightarrow> bool option \<Rightarrow> bool option \<Rightarrow> bool option \<Rightarrow> bool option \<Rightarrow> string option
     \<Rightarrow> bool option \<Rightarrow> string option \<Rightarrow> string option \<Rightarrow> int option \<Rightarrow> int option
     \<Rightarrow> tool_result" where
  "search_repositories e q topic include_desc uid priority_owner_id starred_by private
       is_profile template archived mode exclusive sort_arg order_arg page limit =
     (let ps = [(''q'', PStr q)];
          ps = put_if_truthy ''topic'' (PBool (arg_default False topic)) ps;
          ps = put_if_truthy ''includeDesc'' (PBool (arg_default False include_desc)) ps;
          ps = put_if_truthy ''uid'' (opt PInt uid) ps;
          ps = put_if_truthy ''priority_owner_id'' (opt PInt priority_owner_id) ps;
          ps = put_if_truthy ''starredBy'' (opt PInt starred_by) ps;
          ps = put_if_not_none ''private'' (opt PBool private) ps;
          ps = put_if_not_none ''is_profile'' (opt PBool is_profile) ps;
          ps = put_if_not_none ''template'' (opt PBool template) ps;
          ps = put_if_not_none ''archived'' (opt PBool archived) ps;
          ps = put_if_truthy ''mode'' (opt PStr mode) ps;
          ps = put_if_not_none ''exclusive'' (opt PBool exclusive) ps;
          ps = put_if_truthy ''sort'' (opt PStr sort_arg) ps;
          ps = put_if_truthy ''order'' (opt PStr order_arg) ps;
          ps = put_if_truthy ''page'' (opt PInt page) ps;
          ps = put_if_truthy ''limit'' (opt PInt limit) ps
      in make_request e ''GET'' ''repos/search'' None (Some ps))"

definition update_repository ::
  "env \<Rightarrow> string \<Rightarrow> string \<Rightarrow> string option \<Rightarrow> string option \<Rightarrow> bool option \<Rightarrow> bool option
     \<Rightarrow> bool option \<Rightarrow> tool_result" where
  "update_repository e owner repo description website private has_issues has_wiki =
     (let data = [];
          data = put_if_not_none ''description'' (opt PStr description) data;
          data = put_if_not_none ''website'' (opt PStr website) data;
          data = put_if_not_none ''private'' (opt PBool private) data;
          data = put_if_not_none ''has_issues'' (opt PBool has_issues) data;
          data = put_if_not_none ''has_wiki'' (opt PBool has_wiki) data
      in make_request e ''PATCH'' (''repos/'' @ owner @ ''/'' @ repo) (Some data) None)"

definition create_issue ::
  "env \<Rightarrow> string \<Rightarrow> string \<Rightarrow> string \<Rightarrow> string \<Rightarrow> int option \<Rightarrow> int list option
     \<Rightarrow> tool_result" where
  "create_issue e owner repo title body milestone_id labels =
     (let data = [(''title'', PStr title), (''body'', PStr body)];
          data = put_if_truthy ''milestone'' (opt PInt milestone_id) data;
          data = put_if_truthy ''labels'' (opt int_list labels) data
      in make_request e ''POST'' (''repos/'' @ owner @ ''/'' @ repo @ ''/issues'') (Some data) None)"

definition search_issues ::
  "env \<Rightarrow> string \<Rightarrow> string \<Rightarrow> string \<Rightarrow> string option \<Rightarrow> tool_result" where
  "search_issues e owner repo q state =
     make_request e ''GET'' (''repos/'' @ owner @ ''/'' @ repo @ ''/issues'') None
       (Some [(''q'', PStr q), (''state'', PStr (arg_default ''open'' state))])"

definition update_issue ::
  "env \<Rightarrow> string \<Rightarrow> string \<Rightarrow> int \<Rightarrow> string option \<Rightarrow> string option \<Rightarrow> string option
     \<Rightarrow> int option \<Rightarrow> int list option \<Rightarrow> tool_result" where
  "update_issue e owner repo index title body state milestone_id labels =
     (let data = [];
          data = put_if_not_none ''title'' (opt PStr title) data;
          data = put_if_not_none ''body'' (opt PStr body) data;
          data = put_if_not_none ''state'' (opt PStr state) data;
          data = put_if_not_none ''milestone'' (opt PInt milestone_id) data;
          data = put_if_not_none ''labels'' (opt int_list labels) data
      in make_request e ''PATCH''
           (''repos/'' @ owner @ ''/'' @ repo @ ''/issues/'' @ str_int index) (Some data) None)"

definition get_issue :: "env \<Rightarrow> string \<Rightarrow> string \<Rightarrow> int \<Rightarrow> tool_result" where
  "get_issue e owner repo index =
     make_request e ''GET'' (''repos/'' @ owner @ ''/'' @ repo @ ''/issues/'' @ str_int index)
       None None"

definition list_issue_comments :: "env \<Rightarrow> string \<Rightarrow> string \<Rightarrow> int \<Rightarrow> tool_result" where
  "list_issue_comments e owner repo index =
     make_request e ''GET''
       (''repos/'' @ owner @ ''/'' @ repo @ ''/issues/'' @ str_int index @ ''/comments'')
       None None"

definition create_issue_comment ::
  "env \<Rightarrow> string \<Rightarrow> string \<Rightarrow> int \<Rightarrow> string \<Rightarrow> tool_result" where
  "create_issue_comment e owner repo index body =
     (let data = [(''body'', PStr body)]
      in make_request e ''POST''
           (''repos/'' @ owner @ ''/'' @ repo @ ''/issues/'' @ str_int index @ ''/comments'')
           (Some data) None)"

definition add_issue_label ::
  "env \<Rightarrow> string \<Rightarrow> string \<Rightarrow> int \<Rightarrow> int list \<Rightarrow> tool_result" where
  "add_issue_label e owner repo index labels =
     (let data = [(''labels'', int_list labels)]
      in make_request e ''POST''
           (''repos/'' @ owner @ ''/'' @ repo @ ''/issues/'' @ str_int index @ ''/labels'')
           (Some data) None)"

definition remove_issue_label ::
  "env \<Rightarrow> string \<Rightarrow> string \<Rightarrow> int \<Rightarrow> int \<Rightarrow> tool_result" where
  "remove_issue_label e owner repo index label_id =
     make_request e ''DELETE''
       (''repos/'' @ owner @ ''/'' @ repo @ ''/issues/'' @ str_int index @ ''/labels/''
          @ str_int label_id)
       None None"

definition list_labels ::
  "env \<Rightarrow> string \<Rightarrow> string \<Rightarrow> int option \<Rightarrow> int option \<Rightarrow> tool_result" where
  "list_labels e owner repo page limit =
     make_request e ''GET'' (''repos/'' @ owner @ ''/'' @ repo @ ''/labels'') None
       (Some [(''page'', PInt (arg_default 1 page)), (''limit'', PInt (arg_default 20 limit))])"

definition create_label ::
  "env \<Rightarrow> string \<Rightarrow> string \<Rightarrow> string \<Rightarrow> string \<Rightarrow> string option \<Rightarrow> bool option
     \<Rightarrow> tool_result" where
  "create_label e owner repo name color description exclusive =
     (let data = [(''name'', PStr name), (''color'', PStr color),
                  (''exclusive'', PBool (arg_default False exclusive))];
          data = put_if_truthy ''description'' (opt PStr description) data
      in make_request e ''POST'' (''repos/'' @ owner @ ''/'' @ repo @ ''/labels'') (Some data) None)"

section \<open>The invocation surface\<close>

text \<open>
  The tools are registered by name; a call names one tool and gives its arguments.
  \<open>call_tool\<close> runs the tool named.
\<close>

datatype tool_call =
    List_repositories
  | Create_repository string "string option" "bool option" "bool option" "string option"
      "string option" "string option" "string option" "string option"
  | Create_org_repository string string "string option" "bool option" "bool option"
      "string option" "string option" "string option" "string option" "string option"
  | Get_repository string string
  | Delete_repository string string
  | List_org_repositories string
  | Fork_repository string string "string option"
  | Search_repositories string "bool option" "bool option" "int option" "int option"
      "int option" "bool option" "bool option" "bool option" "bool option" "string option"
      "bool option" "string option" "string option" "int option" "int option"
  | Update_repository string string "string option" "string option" "bool option"
      "bool option" "bool option"
  | Create_issue string string string string "int option" "int list option"
  | Search_issues string string string "string option"
  | Update_issue string string int "string option" "string option" "string option"
      "int option" "int list option"
  | Get_issue string string int
  | List_issue_comments string string int
  | Create_issue_comment string string int string
  | Add_issue_label string string int "int list"
  | Remove_issue_label string string int int
  | List_labels string string "int option" "int option"
  | Create_label string string string string "string option" "bool option"

fun call_tool :: "env \<Rightarrow> tool_call \<Rightarrow> tool_result" where
  "call_tool e List_repositories = list_repositories e"
| "call_tool e (Create_repository name description private auto_init gitignores license readme
       issue_labels default_branch) =
     create_repository e name description private auto_init gitignores license readme
       issue_labels default_branch"
| "call_tool e (Create_org_repository org name description private auto_init gitignores license
       readme issue_labels default_branch) =
     create_org_repository e org name description private auto_init gitignores license readme
       issue_labels default_branch"
| "call_tool e (Get_repository owner repo) = get_repository e owner repo"
| "call_tool e (Delete_repository owner repo) = delete_repository e owner repo"
| "call_tool e (List_org_repositories org) = list_org_repositories e org"
| "call_tool e (Fork_repository owner repo organization) =
     fork_repository e owner repo organization"
| "call_tool e (Search_repositories q topic include_desc uid priority_owner_id starred_by
       private is_profile template archived mode exclusive sort_arg order_arg page limit) =
     search_repositories e q topic include_desc uid priority_owner_id starred_by private
       is_profile template archived mode exclusive sort_arg order_arg page limit"
| "call_tool e (Update_repository owner repo description website private has_issues has_wiki) =
     update_repository e owner repo description website private has_issues has_wiki"
| "call_tool e (Create_issue owner repo title body milestone_id labels) =
     create_issue e owner repo title body milestone_id labels"
| "call_tool e (Search_issues owner repo q state) = search_issues e owner repo q state"
| "call_tool e (Update_issue owner repo index title body state milestone_id labels) =
     update_issue e owner repo index title body state milestone_id labels"
| "call_tool e (Get_issue owner repo index) = get_issue e owner repo index"
| "call_tool e (List_issue_comments owner repo index) = list_issue_comments e owner repo index"
| "call_tool e (Create_issue_comment owner repo index body) =
     create_issue_comment e owner repo index body"
| "call_tool e (Add_issue_label owner repo index labels) =
     add_issue_label e owner repo index labels"
| "call_tool e (Remove_issue_label owner repo index label_id) =
     remove_issue_label e owner repo index label_id"
| "call_tool e (List_labels owner repo page limit) = list_labels e owner repo page limit"
| "call_tool e (Create_label owner repo name color description exclusive) =
     create_label e owner repo name color description exclusive"

section \<open>Observing a call\<close>

text \<open>
  What a call put on the wire is the last entry of the request list it returns;
  \<open>body_get\<close> and \<open>param_get\<close> look a key up in the JSON body and in the query parameters of
  a request, \<open>body_keys\<close> lists the keys of the body. An Error Record is a returned
  dictionary with the key \<open>error\<close>.
\<close>

definition sent :: "(py_exception + pyval) \<times> http_request list \<Rightarrow> http_request" where
  "sent res = last (snd res)"

definition body_get :: "http_request \<Rightarrow> string \<Rightarrow> pyval option" where
  "body_get r k = (case json r of None \<Rightarrow> None | Some d \<Rightarrow> map_of d k)"

definition param_get :: "http_request \<Rightarrow> string \<Rightarrow> pyval option" where
  "param_get r k = (case params r of None \<Rightarrow> None | Some d \<Rightarrow> map_of d k)"

definition body_keys :: "http_request \<Rightarrow> string list" where
  "body_keys r = (case json r of None \<Rightarrow> [] | Some d \<Rightarrow> map fst d)"

definition is_error_record :: "pyval \<Rightarrow> bool" where
  "is_error_record v = (case v of PDict d \<Rightarrow> map_of d ''error'' \<noteq> None | _ \<Rightarrow> False)"

text \<open>A fixed configuration whose remote service gives the same outcome to every request.\<close>

definition test_env :: "http_outcome \<Rightarrow> env" where
  "test_env out =
     \<lparr>GITEA_MCP_API_URL = ''https://gitea.example'', GITEA_ACCESS_TOKEN = ''secret'',
      client_request = (\<lambda>_. out)\<rparr>"

section \<open>What \<open>make_request\<close> sends and returns\<close>

lemma snd_make_request:
  "snd (make_request e m ep d p w) =
     w @ [\<lparr>http_method = m, url = GITEA_MCP_API_URL e @ ''/api/v1/'' @ ep,
            headers = get_headers e, json = d, params = p\<rparr>]"
  by (simp add: make_request_def Let_def split: http_outcome.split sum.split)

lemma sent_make_request:
  "sent (make_request e m ep d p w) =
     \<lparr>http_method = m, url = GITEA_MCP_API_URL e @ ''/api/v1/'' @ ep,
      headers = get_headers e, json = d, params = p\<rparr>"
  by (simp add: sent_def snd_make_request)

lemma fst_make_request:
  "fst (make_request e m ep d p w) =
     (case client_request e \<lparr>http_method = m, url = GITEA_MCP_API_URL e @ ''/api/v1/'' @ ep,
            headers = get_headers e, json = d, params = p\<rparr> of
        Raised ex \<Rightarrow> Inl ex
      | Responded r \<Rightarrow>
          if \<not> is_success (status_code r) then
            Inr (PDict [(''error'', PStr (''HTTP Error: '' @ str_int (status_code r))),
                        (''details'', PStr (response_text r))])
          else if status_code r = 204 then Inr PNone
          else (case response_json r of
                  Inl msg \<Rightarrow> Inr (PDict [(''error'', PStr msg)])
                | Inr v \<Rightarrow> Inr v))"
  by (simp add: make_request_def Let_def split: http_outcome.split sum.split)

lemmas tool_defs = list_repositories_def create_repository_def create_org_repository_def
  get_repository_def delete_repository_def list_org_repositories_def fork_repository_def
  search_repositories_def update_repository_def create_issue_def search_issues_def
  update_issue_def get_issue_def list_issue_comments_def create_issue_comment_def
  add_issue_label_def remove_issue_label_def list_labels_def create_label_def

text \<open>Every tool is one call of \<open>make_request\<close>, so every call appends exactly one request.\<close>

lemma call_tool_is_make_request:
  "\<exists>m ep d p. call_tool e c = make_request e m ep d p"
  by (cases c; simp add: tool_defs Let_def; blast)

lemma snd_call_tool: "snd (call_tool e c w) = w @ [sent (call_tool e c w)]"
proof -
  obtain m ep d p where "call_tool e c = make_request e m ep d p"
    using call_tool_is_make_request by blast
  then show ?thesis by (simp add: snd_make_request sent_make_request)
qed

text \<open>A success response other than 204 whose body does not decode gives the record
  with the message of the decoding exception.\<close>

lemma decode_failure_error_record:
  assumes "client_request e (sent (call_tool e c w)) = Responded r"
    and "is_success (status_code r)" and "status_code r \<noteq> 204"
    and "response_json r = Inl msg"
  shows "fst (call_tool e c w) = Inr (PDict [(''error'', PStr msg)])"
proof -
  obtain m ep d p where "call_tool e c = make_request e m ep d p"
    using call_tool_is_make_request by blast
  with assms show ?thesis by (simp add: fst_make_request sent_make_request)
qed

subsection \<open>Dictionary lookups after a guarded assignment\<close>

lemma map_of_put_if_truthy:
  "map_of (put_if_truthy k x d) k' = (if truthy x \<and> k' = k then Some x else map_of d k')"
  by (simp add: put_if_truthy_def AList.update_conv')

lemma map_of_put_if_not_none:
  "map_of (put_if_not_none k x d) k' = (if x \<noteq> PNone \<and> k' = k then Some x else map_of d k')"
  by (simp add: put_if_not_none_def AList.update_conv')

lemma notin_put_if_truthy:
  "k' \<noteq> k \<Longrightarrow> k' \<notin> fst ` set d \<Longrightarrow> k' \<notin> fst ` set (put_if_truthy k x d)"
  by (auto simp add: put_if_truthy_def AList.dom_update)

lemma notin_put_if_not_none:
  "k' \<noteq> k \<Longrightarrow> k' \<notin> fst ` set d \<Longrightarrow> k' \<notin> fst ` set (put_if_not_none k x d)"
  by (auto simp add: put_if_not_none_def AList.dom_update)

lemma no_milestone_id_key:
  "''milestone_id'' \<notin> set (body_keys (sent (call_tool e c w)))"
  by (cases c; simp add: tool_defs Let_def body_keys_def sent_make_request
        notin_put_if_truthy notin_put_if_not_none)

lemmas req_simps = sent_make_request put_if_truthy_def put_if_not_none_def opt_def
  arg_default_def

subsection \<open>Formatting integers\<close>

lemma str_int_7: "str_int 7 = ''7''"
  by (simp add: str_int_def str_nat.simps digit_char_def)

lemma str_int_404: "str_int 404 = ''404''"
  by (simp add: str_int_def str_nat.simps digit_char_def)

section \<open>Optional arguments\<close>

text \<open>
  C1, as the specification states it, fails on the code. \<open>search_repositories\<close> guards
  \<open>topic\<close>, \<open>include_desc\<close>, \<open>uid\<close> and \<open>page\<close> by truthiness, so a call that supplies
  \<open>topic=False\<close>, \<open>include_desc=False\<close>, \<open>uid=0\<close> and \<open>page=0\<close> sends the query parameters
  \<open>{"q": "infra"}\<close> only: none of the keys \<open>topic\<close>, \<open>includeDesc\<close>, \<open>uid\<close>, \<open>page\<close> appears.
\<close>

theorem falsy_search_filters_dropped:
  "params (sent (search_repositories (test_env (Raised (ConnectError ''unreachable''))) ''infra''
       (Some False) (Some False) (Some 0) None None None None None None None None None None
       (Some 0) None [])) = Some [(''q'', PStr ''infra'')]"
  by (simp add: search_repositories_def req_simps)

text \<open>
  C1, amended to what the code does. For every optional boolean or numeric argument, the
  key it is sent under holds:
  \<^item> guarded by \<open>is not None\<close> (\<open>search_repositories\<close>: \<open>private\<close>, \<open>is_profile\<close>, \<open>template\<close>,
    \<open>archived\<close>, \<open>exclusive\<close>; \<open>update_repository\<close>: \<open>private\<close>, \<open>has_issues\<close>, \<open>has_wiki\<close>;
    \<open>update_issue\<close>: \<open>milestone_id\<close>): the supplied value, false and 0 included, and no key
    when the argument is unset;
  \<^item> guarded by truthiness (\<open>search_repositories\<close>: \<open>topic\<close>, \<open>include_desc\<close>, \<open>uid\<close>,
    \<open>priority_owner_id\<close>, \<open>starred_by\<close>, \<open>page\<close>, \<open>limit\<close>; \<open>create_issue\<close>: \<open>milestone_id\<close>):
    the supplied value when it is true or non-zero, and no key when it is false, 0 or unset;
  \<^item> declared with a default other than \<open>None\<close> and not guarded (\<open>create_repository\<close> and
    \<open>create_org_repository\<close>: \<open>private\<close>, \<open>auto_init\<close>; \<open>create_label\<close>: \<open>exclusive\<close>;
    \<open>list_labels\<close>: \<open>page\<close>, \<open>limit\<close>): always a key, with the supplied value, false and 0
    included, or the default when unset.
\<close>

theorem optional_scalars_sent_by_guard:
  "(let S = sent (search_repositories e q topic include_desc uid priority_owner_id starred_by
                   private is_profile template archived mode exclusive sort_arg order_arg
                   page limit w)
    in param_get S ''topic'' = (if topic = Some True then Some (PBool True) else None)
     \<and> param_get S ''includeDesc'' =
         (if include_desc = Some True then Some (PBool True) else None)
     \<and> param_get S ''uid'' = (if uid = Some 0 then None else map_option PInt uid)
     \<and> param_get S ''priority_owner_id'' =
         (if priority_owner_id = Some 0 then None else map_option PInt priority_owner_id)
     \<and> param_get S ''starredBy'' =
         (if starred_by = Some 0 then None else map_option PInt starred_by)
     \<and> param_get S ''page'' = (if page = Some 0 then None else map_option PInt page)
     \<and> param_get S ''limit'' = (if limit = Some 0 then None else map_option PInt limit)
     \<and> param_get S ''private'' = map_option PBool private
     \<and> param_get S ''is_profile'' = map_option PBool is_profile
     \<and> param_get S ''template'' = map_option PBool template
     \<and> param_get S ''archived'' = map_option PBool archived
     \<and> param_get S ''exclusive'' = map_option PBool exclusive)
   \<and> (let U = sent (update_repository e owner repo description website private has_issues
                      has_wiki w)
      in body_get U ''private'' = map_option PBool private
       \<and> body_get U ''has_issues'' = map_option PBool has_issues
       \<and> body_get U ''has_wiki'' = map_option PBool has_wiki)
   \<and> body_get (sent (create_issue e owner repo title body milestone_id labels w)) ''milestone'' =
       (if milestone_id = Some 0 then None else map_option PInt milestone_id)
   \<and> body_get (sent (update_issue e owner repo index title_opt body_opt state milestone_id
                       labels w)) ''milestone'' = map_option PInt milestone_id
   \<and> (let R = sent (create_repository e name description private auto_init gitignores license
                      readme issue_labels default_branch w)
      in body_get R ''private'' = Some (PBool (arg_default False private))
       \<and> body_get R ''auto_init'' = Some (PBool (arg_default False auto_init)))
   \<and> (let R = sent (create_org_repository e org name description private auto_init gitignores
                      license readme issue_labels default_branch w)
      in body_get R ''private'' = Some (PBool (arg_default False private))
       \<and> body_get R ''auto_init'' = Some (PBool (arg_default False auto_init)))
   \<and> body_get (sent (create_label e owner repo name color description exclusive w))
       ''exclusive'' = Some (PBool (arg_default False exclusive))
   \<and> (let L = sent (list_labels e owner repo page limit w)
      in param_get L ''page'' = Some (PInt (arg_default 1 page))
       \<and> param_get L ''limit'' = Some (PInt (arg_default 20 limit)))"
  apply (simp only: Let_def)
  apply (intro conjI)
  apply (simp_all add: param_get_def body_get_def sent_make_request map_of_put_if_truthy
      map_of_put_if_not_none opt_def search_repositories_def update_repository_def
      create_issue_def update_issue_def create_repository_def create_org_repository_def
      create_label_def list_labels_def split: option.split)
  apply (simp_all add: arg_default_def split: option.split)
  done

text \<open>
  C3, as the specification states it, fails on the code. \<open>create_issue\<close> guards \<open>labels\<close> by
  truthiness, so a call with \<open>labels=[]\<close> sends a body with the keys \<open>title\<close> and \<open>body\<close> only.
\<close>

theorem create_issue_empty_labels_dropped:
  "json (sent (create_issue (test_env (Raised (ConnectError ''unreachable''))) ''acme'' ''site''
       ''Crash'' ''It crashes'' None (Some []) [])) =
     Some [(''title'', PStr ''Crash''), (''body'', PStr ''It crashes'')]"
  by (simp add: create_issue_def req_simps int_list_def)

text \<open>
  C3, amended to what the code does. \<open>update_issue\<close> sends \<open>labels\<close> whenever the list is
  supplied, the empty list included, and no key when it is unset; with \<open>labels=[]\<close> alone its
  body is \<open>{"labels": []}\<close>. \<open>create_issue\<close> sends \<open>labels\<close> only for a non-empty list: an
  empty list gives no key, as an unset one does. \<open>add_issue_label\<close>, where the list is
  required, always sends it.
\<close>

theorem label_lists_sent_by_guard:
  "body_get (sent (update_issue e owner repo index title_opt body_opt state milestone_id labels w))
      ''labels'' = map_option int_list labels
   \<and> json (sent (update_issue e owner repo index None None None None (Some []) w)) =
       Some [(''labels'', PList [])]
   \<and> body_get (sent (create_issue e owner repo title body milestone_id labels w)) ''labels'' =
       (if labels = Some [] then None else map_option int_list labels)
   \<and> body_get (sent (add_issue_label e owner repo index ls w)) ''labels'' = Some (int_list ls)"
  apply (intro conjI)
  apply (simp_all add: param_get_def body_get_def sent_make_request map_of_put_if_truthy
      map_of_put_if_not_none opt_def update_issue_def create_issue_def add_issue_label_def
      int_list_def put_if_not_none_def split: option.split)
  done

text \<open>
  C4, as the specification states it, fails on the code. With only the required arguments
  supplied, \<open>list_labels\<close> sends the query parameters \<open>page=1\<close> and \<open>limit=20\<close>, \<open>create_label\<close>
  sends \<open>exclusive=false\<close> in its body, and \<open>create_repository\<close> sends \<open>private\<close>, \<open>auto_init\<close>
  and \<open>default_branch\<close>: an optional argument declared with a default other than \<open>None\<close> is
  sent at that default.
\<close>

theorem declared_defaults_sent:
  "params (sent (list_labels (test_env (Raised (ConnectError ''unreachable''))) ''acme'' ''site''
       None None [])) = Some [(''page'', PInt 1), (''limit'', PInt 20)]
   \<and> body_get (sent (create_label (test_env (Raised (ConnectError ''unreachable''))) ''acme''
       ''site'' ''bug'' ''ff0000'' None None [])) ''exclusive'' = Some (PBool False)
   \<and> json (sent (create_repository (test_env (Raised (ConnectError ''unreachable''))) ''demo''
       None None None None None None None None [])) =
       Some [(''name'', PStr ''demo''), (''private'', PBool False), (''auto_init'', PBool False),
             (''default_branch'', PStr ''main'')]"
  by (simp add: list_labels_def create_label_def create_repository_def body_get_def req_simps)

text \<open>
  C4, amended to what the code does. With only the required arguments supplied, the body
  and the query parameters of every tool hold the required fields and the optional ones
  declared with a default other than \<open>None\<close>, at that default (\<open>private\<close>, \<open>auto_init\<close>,
  \<open>default_branch\<close> of the two repository creations, \<open>state\<close> of \<open>search_issues\<close>, \<open>page\<close> and
  \<open>limit\<close> of \<open>list_labels\<close>, \<open>exclusive\<close> of \<open>create_label\<close>), and nothing else: no key of an
  optional argument whose default is \<open>None\<close>, and none of \<open>topic\<close> and \<open>include_desc\<close> of
  \<open>search_repositories\<close>.
\<close>

theorem required_only_requests:
  "(let r = sent (list_repositories e w) in json r = None \<and> params r = None)
   \<and> (let r = sent (create_repository e name None None None None None None None None w)
      in json r = Some [(''name'', PStr name), (''private'', PBool False),
                        (''auto_init'', PBool False), (''default_branch'', PStr ''main'')]
       \<and> params r = None)
   \<and> (let r = sent (create_org_repository e org name None None None None None None None None w)
      in json r = Some [(''name'', PStr name), (''private'', PBool False),
                        (''auto_init'', PBool False), (''default_branch'', PStr ''main'')]
       \<and> params r = None)
   \<and> (let r = sent (get_repository e owner repo w) in json r = None \<and> params r = None)
   \<and> (let r = sent (delete_repository e owner repo w) in json r = None \<and> params r = None)
   \<and> (let r = sent (list_org_repositories e org w) in json r = None \<and> params r = None)
   \<and> (let r = sent (fork_repository e owner repo None w) in json r = Some [] \<and> params r = None)
   \<and> (let r = sent (search_repositories e q None None None None None None None None None None
                      None None None None None w)
      in json r = None \<and> params r = Some [(''q'', PStr q)])
   \<and> (let r = sent (update_repository e owner repo None None None None None w)
      in json r = Some [] \<and> params r = None)
   \<and> (let r = sent (create_issue e owner repo title body None None w)
      in json r = Some [(''title'', PStr title), (''body'', PStr body)] \<and> params r = None)
   \<and> (let r = sent (search_issues e owner repo q None w)
      in json r = None \<and> params r = Some [(''q'', PStr q), (''state'', PStr ''open'')])
   \<and> (let r = sent (update_issue e owner repo index None None None None None w)
      in json r = Some [] \<and> params r = None)
   \<and> (let r = sent (get_issue e owner repo index w) in json r = None \<and> params r = None)
   \<and> (let r = sent (list_issue_comments e owner repo index w)
      in json r = None \<and> params r = None)
   \<and> (let r = sent (create_issue_comment e owner repo index body w)
      in json r = Some [(''body'', PStr body)] \<and> params r = None)
   \<and> (let r = sent (add_issue_label e owner repo index labels w)
      in json r = Some [(''labels'', int_list labels)] \<and> params r = None)
   \<and> (let r = sent (remove_issue_label e owner repo index label_id w)
      in json r = None \<and> params r = None)
   \<and> (let r = sent (list_labels e owner repo None None w)
      in json r = None \<and> params r = Some [(''page'', PInt 1), (''limit'', PInt 20)])
   \<and> (let r = sent (create_label e owner repo name color None None w)
      in json r = Some [(''name'', PStr name), (''color'', PStr color),
                        (''exclusive'', PBool False)]
       \<and> params r = None)"
  apply (simp only: Let_def)
  apply (intro conjI)
  apply (simp_all add: tool_defs req_simps)
  done

section \<open>Outcomes of the transport\<close>

text \<open>
  C2, evaluated on the code where it fails. When \<open>client.request\<close> raises, as it does on a
  connection failure or a timeout, the exception leaves \<open>make_request\<close> and the tool: the
  call stands before the \<open>try\<close> block, so neither handler sees it and no Error Record is
  returned. This holds for every tool and every exception raised by the transport.
\<close>

theorem transport_exception_propagates:
  "fst (call_tool (test_env (Raised ex)) c w) = Inl ex"
proof -
  obtain m ep d p where
    "call_tool (test_env (Raised ex)) c = make_request (test_env (Raised ex)) m ep d p"
    using call_tool_is_make_request by blast
  then show ?thesis by (simp add: fst_make_request test_env_def)
qed

text \<open>
  C5. Whenever the remote service answers a tool's request with a status outside 200..299,
  the tool returns the Error Record whose \<open>error\<close> is \<open>HTTP Error: \<close> followed by the status
  code and whose \<open>details\<close> is the raw body text of the response, whatever that body decodes
  to.
\<close>

theorem http_error_record:
  assumes "client_request e (sent (call_tool e c w)) = Responded r"
    and "\<not> is_success (status_code r)"
  shows "fst (call_tool e c w) =
           Inr (PDict [(''error'', PStr (''HTTP Error: '' @ str_int (status_code r))),
                       (''details'', PStr (response_text r))])"
proof -
  obtain m ep d p where "call_tool e c = make_request e m ep d p"
    using call_tool_is_make_request by blast
  with assms show ?thesis by (simp add: fst_make_request sent_make_request)
qed

theorem http_error_record_witness:
  \<open>client_request
      (test_env (Responded \<lparr>status_code = 404, response_text = ''{"message":"not found"}'',
                            response_json = Inr (PDict [(''message'', PStr ''not found'')])\<rparr>))
      (sent (call_tool
          (test_env (Responded \<lparr>status_code = 404, response_text = ''{"message":"not found"}'',
                            response_json = Inr (PDict [(''message'', PStr ''not found'')])\<rparr>))
          (Get_repository ''acme'' ''gone'') [])) =
      Responded \<lparr>status_code = 404, response_text = ''{"message":"not found"}'',
                            response_json = Inr (PDict [(''message'', PStr ''not found'')])\<rparr>
   \<and> \<not> is_success 404
   \<and> fst (call_tool
          (test_env (Responded \<lparr>status_code = 404, response_text = ''{"message":"not found"}'',
                            response_json = Inr (PDict [(''message'', PStr ''not found'')])\<rparr>))
          (Get_repository ''acme'' ''gone'') []) =
       Inr (PDict [(''error'', PStr ''HTTP Error: 404''),
                   (''details'', PStr ''{"message":"not found"}'')])\<close>
  using http_error_record [of
      \<open>test_env (Responded \<lparr>status_code = 404, response_text = ''{"message":"not found"}'',
                            response_json = Inr (PDict [(''message'', PStr ''not found'')])\<rparr>)\<close>
      \<open>Get_repository ''acme'' ''gone''\<close> \<open>[]\<close>
      \<open>\<lparr>status_code = 404, response_text = ''{"message":"not found"}'',
                            response_json = Inr (PDict [(''message'', PStr ''not found'')])\<rparr>\<close>]
  by (simp add: test_env_def is_success_def str_int_404)

text \<open>
  C6, as the specification states it, fails on the code. The result for a 204 response is
  Python \<open>None\<close>, and \<open>None\<close> is also what a 200 response with the JSON body \<open>null\<close> gives:
  the empty result is the value of a JSON null.
\<close>

theorem no_content_is_json_null:
  "fst (call_tool (test_env (Responded \<lparr>status_code = 204, response_text = [],
                       response_json = Inl ''Expecting value''\<rparr>)) List_repositories []) =
     Inr PNone
   \<and> fst (call_tool (test_env (Responded \<lparr>status_code = 200, response_text = ''null'',
                       response_json = Inr PNone\<rparr>)) List_repositories []) =
     Inr PNone"
  by (simp add: list_repositories_def fst_make_request test_env_def is_success_def)

text \<open>
  C6, amended to what the code does. Whenever the remote service answers a tool's request
  with status 204, the tool returns Python \<open>None\<close>, whatever the body of the response is and
  whatever decoding it would give; \<open>None\<close> is not an Error Record.
\<close>

theorem no_content_returns_none:
  assumes "client_request e (sent (call_tool e c w)) = Responded r"
    and "status_code r = 204"
  shows "fst (call_tool e c w) = Inr PNone \<and> \<not> is_error_record PNone"
proof -
  obtain m ep d p where "call_tool e c = make_request e m ep d p"
    using call_tool_is_make_request by blast
  with assms show ?thesis
    by (simp add: fst_make_request sent_make_request is_success_def is_error_record_def)
qed

theorem no_content_returns_none_witness:
  "client_request
      (test_env (Responded \<lparr>status_code = 204, response_text = [],
                            response_json = Inl ''Expecting value''\<rparr>))
      (sent (call_tool
          (test_env (Responded \<lparr>status_code = 204, response_text = [],
                                response_json = Inl ''Expecting value''\<rparr>))
          (Delete_repository ''acme'' ''site'') [])) =
      Responded \<lparr>status_code = 204, response_text = [],
                 response_json = Inl ''Expecting value''\<rparr>
   \<and> status_code \<lparr>status_code = 204, response_text = [],
                   response_json = Inl ''Expecting value''\<rparr> = 204
   \<and> fst (call_tool
          (test_env (Responded \<lparr>status_code = 204, response_text = [],
                                response_json = Inl ''Expecting value''\<rparr>))
          (Delete_repository ''acme'' ''site'') []) = Inr PNone
   \<and> \<not> is_error_record PNone"
  using no_content_returns_none [of
      "test_env (Responded \<lparr>status_code = 204, response_text = [],
                            response_json = Inl ''Expecting value''\<rparr>)"
      "Delete_repository ''acme'' ''site''" "[]"
      "\<lparr>status_code = 204, response_text = [], response_json = Inl ''Expecting value''\<rparr>"]
  by (simp add: test_env_def)

section \<open>End-to-end scenarios\<close>

text \<open>
  C7. Creating a repository with the name \<open>demo\<close> and no other argument puts exactly one
  request on the wire: method POST, path \<open>user/repos\<close> under the API prefix, no query
  parameters, and the JSON body with exactly the four keys \<open>name\<close>, \<open>private\<close>, \<open>auto_init\<close>
  and \<open>default_branch\<close>, the last three at their declared defaults.
\<close>

theorem create_repository_demo_request:
  "snd (create_repository e ''demo'' None None None None None None None None w) =
     w @ [\<lparr>http_method = ''POST'', url = GITEA_MCP_API_URL e @ ''/api/v1/user/repos'',
            headers = get_headers e,
            json = Some [(''name'', PStr ''demo''), (''private'', PBool False),
                         (''auto_init'', PBool False), (''default_branch'', PStr ''main'')],
            params = None\<rparr>]"
  by (simp add: create_repository_def snd_make_request put_if_truthy_def opt_def arg_default_def)

text \<open>
  C8. Updating the issue at index 7 with only \<open>state\<close> supplied, as \<open>closed\<close>, sends one PATCH
  request to \<open>repos/{owner}/{repo}/issues/7\<close> whose JSON body is exactly the one key \<open>state\<close>
  with the value \<open>closed\<close>.
\<close>

theorem update_issue_close_request:
  "snd (update_issue e owner repo 7 None None (Some ''closed'') None None w) =
     w @ [\<lparr>http_method = ''PATCH'',
            url = GITEA_MCP_API_URL e @ ''/api/v1/repos/'' @ owner @ ''/'' @ repo @ ''/issues/7'',
            headers = get_headers e,
            json = Some [(''state'', PStr ''closed'')],
            params = None\<rparr>]"
  by (simp add: update_issue_def snd_make_request put_if_not_none_def opt_def str_int_7)

section \<open>Key names and the fork body\<close>

text \<open>
  C9, as the specification states it, fails on the code. \<open>create_issue\<close> guards
  \<open>milestone_id\<close> by truthiness, so a supplied \<open>milestone_id=0\<close> is not sent under any key:
  the body holds \<open>title\<close> and \<open>body\<close> only.
\<close>

theorem create_issue_zero_milestone_dropped:
  "json (sent (create_issue (test_env (Raised (ConnectError ''unreachable''))) ''acme'' ''site''
       ''Crash'' ''It crashes'' (Some 0) None [])) =
     Some [(''title'', PStr ''Crash''), (''body'', PStr ''It crashes'')]"
  by (simp add: create_issue_def req_simps)

text \<open>
  C9, amended to what the code does. A supplied \<open>milestone_id\<close> is sent under the key
  \<open>milestone\<close> by \<open>update_issue\<close> always and by \<open>create_issue\<close> when it is not 0; and no
  tool ever sends a body with a key named \<open>milestone_id\<close>.
\<close>

theorem milestone_key:
  "(m \<noteq> 0 \<longrightarrow>
      body_get (sent (create_issue e owner repo title body (Some m) labels w)) ''milestone'' =
        Some (PInt m))
   \<and> body_get (sent (update_issue e owner repo index title_opt body_opt state (Some m) labels w))
        ''milestone'' = Some (PInt m)
   \<and> ''milestone_id'' \<notin> set (body_keys (sent (call_tool e c w)))"
  by (simp add: no_milestone_id_key param_get_def body_get_def sent_make_request
        map_of_put_if_truthy map_of_put_if_not_none opt_def create_issue_def update_issue_def)

theorem milestone_key_witness:
  "(3::int) \<noteq> 0
   \<and> body_get (sent (create_issue (test_env (Raised (ConnectError ''unreachable''))) ''acme''
        ''site'' ''Crash'' ''It crashes'' (Some 3) None [])) ''milestone'' = Some (PInt 3)
   \<and> body_get (sent (update_issue (test_env (Raised (ConnectError ''unreachable''))) ''acme''
        ''site'' 7 None None None (Some 3) None [])) ''milestone'' = Some (PInt 3)
   \<and> ''milestone_id'' \<notin> set (body_keys (sent (call_tool
        (test_env (Raised (ConnectError ''unreachable'')))
        (Create_issue ''acme'' ''site'' ''Crash'' ''It crashes'' (Some 3) None) [])))"
  using milestone_key [of 3 "test_env (Raised (ConnectError ''unreachable''))" "''acme''"
      "''site''" "''Crash''" "''It crashes''" None "[]" 7 None None None
      "Create_issue ''acme'' ''site'' ''Crash'' ''It crashes'' (Some 3) None"]
  by simp

text \<open>
  C10. \<open>fork_repository\<close> sends one POST request to \<open>repos/{owner}/{repo}/forks\<close> and always a
  JSON body: the empty object when \<open>organization\<close> is unset or the empty string, and the
  object with the one key \<open>organization\<close> when it is a non-empty string.
\<close>

theorem fork_repository_body:
  "(organization = None \<or> organization = Some [] \<longrightarrow>
      snd (fork_repository e owner repo organization w) =
        w @ [\<lparr>http_method = ''POST'',
               url = GITEA_MCP_API_URL e @ ''/api/v1/repos/'' @ owner @ ''/'' @ repo @ ''/forks'',
               headers = get_headers e, json = Some [], params = None\<rparr>])
   \<and> (org \<noteq> [] \<longrightarrow>
      snd (fork_repository e owner repo (Some org) w) =
        w @ [\<lparr>http_method = ''POST'',
               url = GITEA_MCP_API_URL e @ ''/api/v1/repos/'' @ owner @ ''/'' @ repo @ ''/forks'',
               headers = get_headers e, json = Some [(''organization'', PStr org)],
               params = None\<rparr>])"
  by (auto simp add: fork_repository_def snd_make_request put_if_truthy_def opt_def)

theorem fork_repository_body_witness:
  "((None::string option) = None \<or> (None::string option) = Some [])
   \<and> snd (fork_repository (test_env (Raised (ConnectError ''unreachable''))) ''acme'' ''site''
        None []) =
        [\<lparr>http_method = ''POST'',
          url = ''https://gitea.example/api/v1/repos/acme/site/forks'',
          headers = get_headers (test_env (Raised (ConnectError ''unreachable''))),
          json = Some [], params = None\<rparr>]
   \<and> ''tools'' \<noteq> []
   \<and> snd (fork_repository (test_env (Raised (ConnectError ''unreachable''))) ''acme'' ''site''
        (Some ''tools'') []) =
        [\<lparr>http_method = ''POST'',
          url = ''https://gitea.example/api/v1/repos/acme/site/forks'',
          headers = get_headers (test_env (Raised (ConnectError ''unreachable''))),
          json = Some [(''organization'', PStr ''tools'')], params = None\<rparr>]"
  using fork_repository_body [of None "test_env (Raised (ConnectError ''unreachable''))"
      "''acme''" "''site''" "[]" "''tools''"]
  by (simp add: test_env_def)

end
